theory Spec2Isabelle
  imports Main
begin

section \<open>Python values, exceptions and objects\<close>

text \<open>
  The development embeds \<^verbatim>\<open>src/hdmf/container.py\<close>: the classes
  \<^verbatim>\<open>AbstractContainer\<close>, \<^verbatim>\<open>Container\<close> and \<^verbatim>\<open>Data\<close>.
  Objects live in a store indexed by addresses; Python's \<^verbatim>\<open>is\<close> is equality of
  addresses, and a reference that may be \<^verbatim>\<open>None\<close> is an \<open>addr option\<close>.
\<close>

type_synonym addr = nat

text \<open>
  The Python values that reach the module: field values, the entries of a class's
  \<^verbatim>\<open>__fields__\<close> and the entries of a field descriptor. \<open>PRef a\<close> is the object
  at address \<open>a\<close>; a dictionary keeps its items in insertion order.
\<close>

datatype pyval =
    PNone
  | PBool bool
  | PInt int
  | PStr string
  | PRef addr
  | PList "pyval list"
  | PTuple "pyval list"
  | PSet "pyval list"
  | PDict "(string \<times> pyval) list"

text \<open>
  The exceptions the module raises, with what their messages name. The \<^verbatim>\<open>repr\<close> of an
  object inside a message is represented by the object's address, and the name of a class
  is left out of a message. \<open>ExternalError\<close> is an exception raised inside an external
  library, whatever its class.
\<close>

datatype message =
    AlreadySet pyval
  | MustSpecifyName
  | FieldsMustBeTuple string
  | AttrNameMustBeString
  | NameContainsSlash string
  | CannotReassignParent addr addr
  | GotNoneForParent addr
  | UnrecognizedKey string pyval
  | MustBeNamed pyval pyval
  | CannotAppendTo string
  | CannotExtend string
  | NoAttribute string
  | NotCallable

datatype error =
    ValueError message
  | AttributeError message
  | TypeError message
  | KeyError string
  | IndexError
  | RecursionError
  | ExternalError string

section \<open>Data: the buffer behind a dataset container\<close>

text \<open>
  \<^verbatim>\<open>Data.append\<close> and \<^verbatim>\<open>Data.extend\<close> hand their work to two external libraries:
  \<^verbatim>\<open>numpy.append\<close> for an array, and the attribute \<^verbatim>\<open>shape\<close>, the method
  \<^verbatim>\<open>resize\<close> and item assignment of a \<^verbatim>\<open>h5py.Dataset\<close>. What these return (the
  dtype of the new array, the errors of a dataset that cannot grow) is the libraries'
  business, so they are parameters of the model: \<open>'arr\<close> and \<open>'ds\<close> are the libraries'
  arrays and datasets, \<open>'v\<close> the values stored.

  An argument passed to a library is a value or a Python list of arguments, and an item
  assignment names the position by an index or by a slice with a start only.
\<close>

datatype 'v nested =
    Item 'v
  | Seq "'v nested list"

datatype pyindex =
    Index int
  | SliceFrom int

record ('v, 'arr, 'ds) libraries =
  np_append :: "'arr \<Rightarrow> 'v nested \<Rightarrow> error + 'arr"
  ds_shape :: "'ds \<Rightarrow> nat list"
  ds_resize :: "'ds \<Rightarrow> nat list \<Rightarrow> error + 'ds"
  ds_setitem :: "'ds \<Rightarrow> pyindex \<Rightarrow> 'v nested \<Rightarrow> error + 'ds"

text \<open>
  What \<^verbatim>\<open>Data.__data\<close> can be: a Python list, a \<^verbatim>\<open>numpy.ndarray\<close>, a
  \<^verbatim>\<open>h5py.Dataset\<close>, or an object of any other type (a tuple, a \<^verbatim>\<open>DataIO\<close>, ...),
  given by the name of its type and its contents.
\<close>

datatype ('v, 'arr, 'ds) backing =
    PyList "'v list"
  | NdArray 'arr
  | H5Dataset 'ds
  | OtherData string "'v list"

text \<open>
  \<^verbatim>\<open>Data.append(arg)\<close> and \<^verbatim>\<open>Data.extend(arg)\<close>. Each returns what the call
  raised, if anything, and the buffer afterwards. The argument of \<^verbatim>\<open>extend\<close> is a
  Python sequence, given by its items.
\<close>

definition Data_append ::
  "('v, 'arr, 'ds) libraries \<Rightarrow> ('v, 'arr, 'ds) backing \<Rightarrow> 'v
     \<Rightarrow> (error + unit) \<times> ('v, 'arr, 'ds) backing" where
  "Data_append L d arg =
     (case d of
        PyList xs \<Rightarrow> (Inr (), PyList (xs @ [arg]))
      | NdArray arr \<Rightarrow>
          (case np_append L arr (Seq [Item arg]) of
             Inl e \<Rightarrow> (Inl e, d)
           | Inr arr' \<Rightarrow> (Inr (), NdArray arr'))
      | H5Dataset ds \<Rightarrow>
          (case ds_shape L ds of
             [] \<Rightarrow> (Inl IndexError, d)
           | n # rest \<Rightarrow>
               (case ds_resize L ds (Suc n # rest) of
                  Inl e \<Rightarrow> (Inl e, d)
                | Inr ds1 \<Rightarrow>
                    (case ds_setitem L ds1 (Index (- 1)) (Item arg) of
                       Inl e \<Rightarrow> (Inl e, H5Dataset ds1)
                     | Inr ds2 \<Rightarrow> (Inr (), H5Dataset ds2))))
      | OtherData tname xs \<Rightarrow> (Inl (ValueError (CannotAppendTo tname)), d))"

definition Data_extend ::
  "('v, 'arr, 'ds) libraries \<Rightarrow> ('v, 'arr, 'ds) backing \<Rightarrow> 'v list
     \<Rightarrow> (error + unit) \<times> ('v, 'arr, 'ds) backing" where
  "Data_extend L d arg =
     (case d of
        PyList xs \<Rightarrow> (Inr (), PyList (xs @ arg))
      | NdArray arr \<Rightarrow>
          (case np_append L arr (Seq [Seq (map Item arg)]) of
             Inl e \<Rightarrow> (Inl e, d)
           | Inr arr' \<Rightarrow> (Inr (), NdArray arr'))
      | H5Dataset ds \<Rightarrow>
          (case ds_shape L ds of
             [] \<Rightarrow> (Inl IndexError, d)
           | n # rest \<Rightarrow>
               (case ds_resize L ds ((n + length arg) # rest) of
                  Inl e \<Rightarrow> (Inl e, d)
                | Inr ds1 \<Rightarrow>
                    (case ds_setitem L ds1 (SliceFrom (- int (length arg))) (Seq (map Item arg)) of
                       Inl e \<Rightarrow> (Inl e, H5Dataset ds1)
                     | Inr ds2 \<Rightarrow> (Inr (), H5Dataset ds2))))
      | OtherData tname xs \<Rightarrow> (Inl (ValueError (CannotExtend tname)), d))"

text \<open>
  An example of the libraries, for one-dimensional arrays of 64-bit integers and Python
  integers as values: \<^verbatim>\<open>np.append\<close> of such an array and a non-empty list of integers
  that fit 64 bits, as \<^verbatim>\<open>append\<close> or \<^verbatim>\<open>extend\<close> passes it, is the array with the
  integers added at the end. The example goes no further: every other call is answered
  with an error of the example's own, and it has no datasets.
\<close>

definition fits_int64 :: "int \<Rightarrow> bool" where
  "fits_int64 i = (- (2 ^ 63) \<le> i \<and> i < 2 ^ 63)"

fun passed_items :: "'v nested \<Rightarrow> 'v list option" where
  "passed_items (Seq [Item x]) = Some [x]"
| "passed_items (Seq [Seq ys]) =
     (if ys \<noteq> [] \<and> list_all (\<lambda>y. case y of Item v \<Rightarrow> True | Seq zs \<Rightarrow> False) ys
      then Some (concat (map (\<lambda>y. case y of Item v \<Rightarrow> [v] | Seq zs \<Rightarrow> []) ys))
      else None)"
| "passed_items _ = None"

definition example_libraries :: "(int, int list, unit) libraries" where
  "example_libraries =
     \<lparr>np_append = (\<lambda>arr vals.
        case passed_items vals of
          Some xs \<Rightarrow>
            if list_all fits_int64 (arr @ xs) then Inr (arr @ xs)
            else Inl (ExternalError ''outside the example'')
        | None \<Rightarrow> Inl (ExternalError ''outside the example'')),
      ds_shape = (\<lambda>ds. []),
      ds_resize = (\<lambda>ds shape. Inl (ExternalError ''outside the example'')),
      ds_setitem = (\<lambda>ds i vals. Inl (ExternalError ''outside the example''))\<rparr>"

text \<open>
  The libraries on a machine with no memory left: \<^verbatim>\<open>np.append\<close>, which allocates the
  new array, raises \<^verbatim>\<open>MemoryError\<close>.
\<close>

definition exhausted_libraries :: "(int, int list, unit) libraries" where
  "exhausted_libraries =
     \<lparr>np_append = (\<lambda>arr vals. Inl (ExternalError ''MemoryError'')),
      ds_shape = (\<lambda>ds. []),
      ds_resize = (\<lambda>ds shape. Inl (ExternalError ''MemoryError'')),
      ds_setitem = (\<lambda>ds i vals. Inl (ExternalError ''MemoryError''))\<rparr>"

section \<open>The object store\<close>

text \<open>
  An instance of \<^verbatim>\<open>AbstractContainer\<close> or of a subclass. \<open>c_is_Container\<close> says
  whether the instance's class is \<^verbatim>\<open>Container\<close> or a subclass of it (it is not for
  \<^verbatim>\<open>Data\<close>); \<open>c_type_tag\<close> is the value of the attribute that
  \<^verbatim>\<open>_data_type_attr\<close> names, \<open>None\<close> when the class defines no such attribute.
  The other fields are the private attributes that \<^verbatim>\<open>__new__\<close> and
  \<^verbatim>\<open>__init__\<close> set; the two that \<^verbatim>\<open>__init__\<close> sets are \<open>None\<close> until it has run.
\<close>

record container =
  c_is_Container :: bool
  c_type_tag :: "string option"
  c_container_source :: "string option"
  c_parent :: "addr option"
  c_children :: "addr list"
  c_modified :: bool
  c_object_id :: "string option"
  c_name :: "string option"
  c_field_values :: "(pyval \<rightharpoonup> pyval) option"

text \<open>
  Modelled from the spec: the class \<^verbatim>\<open>Proxy\<close> is not part of this source file. The
  spec gives it a predicate \<^verbatim>\<open>matches(candidate)\<close> and a hook
  \<^verbatim>\<open>add_candidate(candidate)\<close>. The candidates recorded so far are the state of a
  proxy; \<^verbatim>\<open>matches\<close> is a parameter \<open>M\<close> of every operation that calls it,
  \<open>M h p c\<close> telling whether proxy \<open>p\<close> matches candidate \<open>c\<close> in store \<open>h\<close>.
\<close>

record proxy =
  px_candidates :: "addr list"

datatype pyobj =
    Cont container
  | Prox proxy
  | Other

type_synonym heap = "addr \<Rightarrow> pyobj"

type_synonym matcher = "heap \<Rightarrow> addr \<Rightarrow> addr \<Rightarrow> bool"

text \<open>
  Modelled from the spec: \<^verbatim>\<open>Proxy.add_candidate\<close>, which is not part of this source
  file, records the object as one more candidate of the proxy. An object that is no proxy
  has no such method.
\<close>

definition add_candidate :: "heap \<Rightarrow> addr \<Rightarrow> addr \<Rightarrow> (error + unit) \<times> heap" where
  "add_candidate h p cand =
     (case h p of
        Prox px \<Rightarrow> (Inr (), h(p := Prox (px\<lparr>px_candidates := px_candidates px @ [cand]\<rparr>)))
      | _ \<Rightarrow> (Inl (AttributeError (NoAttribute ''add_candidate'')), h))"

definition isinstance_AbstractContainer :: "heap \<Rightarrow> addr option \<Rightarrow> bool" where
  "isinstance_AbstractContainer h r =
     (case r of
        None \<Rightarrow> False
      | Some a \<Rightarrow> (case h a of Cont c \<Rightarrow> True | _ \<Rightarrow> False))"

definition isinstance_Container :: "heap \<Rightarrow> addr option \<Rightarrow> bool" where
  "isinstance_Container h r =
     (case r of
        None \<Rightarrow> False
      | Some a \<Rightarrow> (case h a of Cont c \<Rightarrow> c_is_Container c | _ \<Rightarrow> False))"

section \<open>AbstractContainer\<close>

text \<open>
  \<^verbatim>\<open>set_modified(modified)\<close> calls itself on the parent. Python bounds the depth of
  calls: \<open>fuel\<close> is the number of nested calls of \<^verbatim>\<open>set_modified\<close> the interpreter
  still allows, and the call that exceeds it raises \<^verbatim>\<open>RecursionError\<close>.
\<close>

fun set_modified :: "nat \<Rightarrow> heap \<Rightarrow> addr \<Rightarrow> bool \<Rightarrow> (error + unit) \<times> heap" where
  "set_modified 0 h self modified = (Inl RecursionError, h)"
| "set_modified (Suc fuel) h self modified =
     (case h self of
        Cont c \<Rightarrow>
          (let h1 = h(self := Cont (c\<lparr>c_modified := modified\<rparr>)) in
           (case c_parent c of
              None \<Rightarrow> (Inr (), h1)
            | Some p \<Rightarrow>
                if modified \<and> isinstance_Container h1 (Some p)
                then set_modified fuel h1 p True
                else (Inr (), h1)))
      | _ \<Rightarrow> (Inl (AttributeError (NoAttribute ''set_modified'')), h))"

text \<open>The read accessors \<^verbatim>\<open>modified\<close>, \<^verbatim>\<open>parent\<close> and \<^verbatim>\<open>children\<close>.\<close>

definition modified :: "heap \<Rightarrow> addr \<Rightarrow> error + bool" where
  "modified h self =
     (case h self of
        Cont c \<Rightarrow> Inr (c_modified c)
      | _ \<Rightarrow> Inl (AttributeError (NoAttribute ''modified'')))"

definition parent :: "heap \<Rightarrow> addr \<Rightarrow> error + addr option" where
  "parent h self =
     (case h self of
        Cont c \<Rightarrow> Inr (c_parent c)
      | _ \<Rightarrow> Inl (AttributeError (NoAttribute ''parent'')))"

definition children :: "heap \<Rightarrow> addr \<Rightarrow> error + pyval" where
  "children h self =
     (case h self of
        Cont c \<Rightarrow> Inr (PTuple (map PRef (c_children c)))
      | _ \<Rightarrow> Inl (AttributeError (NoAttribute ''children'')))"

text \<open>
  The two statements \<^verbatim>\<open>parent_container.__children.append(self)\<close> and
  \<^verbatim>\<open>parent_container.set_modified()\<close>, which both branches of the setter end with.
  The private attribute exists on instances of \<^verbatim>\<open>AbstractContainer\<close> only.
\<close>

definition attach :: "nat \<Rightarrow> heap \<Rightarrow> addr \<Rightarrow> addr \<Rightarrow> (error + unit) \<times> heap" where
  "attach fuel h self p =
     (case h p of
        Cont pc \<Rightarrow>
          set_modified fuel (h(p := Cont (pc\<lparr>c_children := c_children pc @ [self]\<rparr>))) p True
      | _ \<Rightarrow> (Inl (AttributeError (NoAttribute ''_AbstractContainer__children'')), h))"

text \<open>The setter of the property \<^verbatim>\<open>parent\<close>: \<^verbatim>\<open>self.parent = parent_container\<close>.\<close>

definition parent_setter ::
  "matcher \<Rightarrow> nat \<Rightarrow> heap \<Rightarrow> addr \<Rightarrow> addr option \<Rightarrow> (error + unit) \<times> heap" where
  "parent_setter M fuel h self parent_container =
     (case h self of
        Cont c \<Rightarrow>
          if c_parent c = parent_container then (Inr (), h)
          else
            (case c_parent c of
               Some cur \<Rightarrow>
                 if isinstance_AbstractContainer h (Some cur)
                 then (Inl (ValueError (CannotReassignParent self cur)), h)
                 else
                   (case parent_container of
                      None \<Rightarrow> (Inl (ValueError (GotNoneForParent self)), h)
                    | Some p \<Rightarrow>
                        (case h cur of
                           Prox px \<Rightarrow>
                             if M h cur p
                             then attach fuel (h(self := Cont (c\<lparr>c_parent := Some p\<rparr>))) self p
                             else add_candidate h cur p
                         | _ \<Rightarrow> (Inl (AttributeError (NoAttribute ''matches'')), h)))
             | None \<Rightarrow>
                 (let h1 = h(self := Cont (c\<lparr>c_parent := parent_container\<rparr>)) in
                  (case parent_container of
                     None \<Rightarrow> (Inr (), h1)
                   | Some p \<Rightarrow>
                       if isinstance_Container h1 (Some p) then attach fuel h1 self p
                       else (Inr (), h1))))
      | _ \<Rightarrow> (Inl (AttributeError (NoAttribute ''parent'')), h))"



text \<open>
  \<^verbatim>\<open>__new__\<close> and \<^verbatim>\<open>__init__\<close>. A class is what the constructor needs of it:
  whether it is \<^verbatim>\<open>Container\<close> or a subclass, and its type tag. \<open>inst\<close> is the address
  of the object that \<^verbatim>\<open>super().__new__(cls)\<close> allocates, \<open>uuid\<close> the string that
  \<^verbatim>\<open>str(uuid4())\<close> returns; a keyword argument that is not passed is \<open>None\<close>.
\<close>

record pyclass =
  cls_is_Container :: bool
  cls_type_tag :: "string option"

record new_kwargs =
  kw_container_source :: "string option option"
  kw_object_id :: "string option option"
  kw_parent :: "addr option option"

definition kwargs_pop :: "'a option option \<Rightarrow> 'a option \<Rightarrow> 'a option" where
  "kwargs_pop arg dflt = (case arg of None \<Rightarrow> dflt | Some v \<Rightarrow> v)"

definition AbstractContainer_new ::
  "matcher \<Rightarrow> nat \<Rightarrow> heap \<Rightarrow> addr \<Rightarrow> pyclass \<Rightarrow> string \<Rightarrow> new_kwargs \<Rightarrow> (error + addr) \<times> heap" where
  "AbstractContainer_new M fuel h inst cls uuid kwargs =
     (let h1 = h(inst := Cont
                \<lparr>c_is_Container = cls_is_Container cls,
                 c_type_tag = cls_type_tag cls,
                 c_container_source = kwargs_pop (kw_container_source kwargs) None,
                 c_parent = None,
                 c_children = [],
                 c_modified = True,
                 c_object_id = kwargs_pop (kw_object_id kwargs) (Some uuid),
                 c_name = None,
                 c_field_values = None\<rparr>)
      in (case parent_setter M fuel h1 inst (kwargs_pop (kw_parent kwargs) None) of
            (Inl e, h2) \<Rightarrow> (Inl e, h2)
          | (Inr u, h2) \<Rightarrow> (Inr inst, h2)))"

definition AbstractContainer_init :: "heap \<Rightarrow> addr \<Rightarrow> string \<Rightarrow> (error + unit) \<times> heap" where
  "AbstractContainer_init h self name =
     (if CHR ''/'' \<in> set name then (Inl (ValueError (NameContainsSlash name)), h)
      else
        (case h self of
           Cont c \<Rightarrow>
             (Inr (), h(self := Cont (c\<lparr>c_name := Some name, c_field_values := Some Map.empty\<rparr>)))
         | _ \<Rightarrow> (Inl (AttributeError (NoAttribute ''__init__'')), h)))"

text \<open>
  Calling a class: \<^verbatim>\<open>__new__\<close>, then \<^verbatim>\<open>__init__\<close> on the new instance.
\<close>

definition construct ::
  "matcher \<Rightarrow> nat \<Rightarrow> heap \<Rightarrow> addr \<Rightarrow> pyclass \<Rightarrow> string \<Rightarrow> new_kwargs \<Rightarrow> string
     \<Rightarrow> (error + addr) \<times> heap" where
  "construct M fuel h inst cls uuid kwargs name =
     (case AbstractContainer_new M fuel h inst cls uuid kwargs of
        (Inl e, h1) \<Rightarrow> (Inl e, h1)
      | (Inr a, h1) \<Rightarrow>
          (case AbstractContainer_init h1 a name of
             (Inl e, h2) \<Rightarrow> (Inl e, h2)
           | (Inr u, h2) \<Rightarrow> (Inr a, h2)))"

section \<open>Generated setters\<close>

text \<open>
  A field descriptor is a dictionary. \<^verbatim>\<open>field.get(key, default)\<close> and the truth value
  Python gives a value in a condition (a reference to an object counts as true: the values
  of a descriptor are literals).
\<close>

definition dict_get :: "(string \<times> pyval) list \<Rightarrow> string \<Rightarrow> pyval \<Rightarrow> pyval" where
  "dict_get d k dflt = (case map_of d k of None \<Rightarrow> dflt | Some v \<Rightarrow> v)"

fun truthy :: "pyval \<Rightarrow> bool" where
  "truthy PNone = False"
| "truthy (PBool b) = b"
| "truthy (PInt i) = (i \<noteq> 0)"
| "truthy (PStr s) = (s \<noteq> [])"
| "truthy (PRef a) = True"
| "truthy (PList xs) = (xs \<noteq> [])"
| "truthy (PTuple xs) = (xs \<noteq> [])"
| "truthy (PSet xs) = (xs \<noteq> [])"
| "truthy (PDict d) = (d \<noteq> [])"

text \<open>
  A setter takes the remaining call depth, the store, \<^verbatim>\<open>self\<close> and the value. The
  factory \<^verbatim>\<open>_setter\<close> returns \<^verbatim>\<open>None\<close> for a field that is not settable, and calling
  \<^verbatim>\<open>None\<close> raises \<^verbatim>\<open>TypeError\<close>.
\<close>

type_synonym setter = "nat \<Rightarrow> heap \<Rightarrow> addr \<Rightarrow> pyval \<Rightarrow> (error + unit) \<times> heap"


text \<open>The function \<^verbatim>\<open>setter\<close> that \<^verbatim>\<open>AbstractContainer._setter\<close> returns.\<close>

definition setter :: "pyval \<Rightarrow> setter" where
  "setter name fuel h self val =
     (if val = PNone then (Inr (), h)
      else
        (case h self of
           Cont c \<Rightarrow>
             (case c_field_values c of
                None \<Rightarrow> (Inl (AttributeError (NoAttribute ''_AbstractContainer__field_values'')), h)
              | Some fv \<Rightarrow>
                  if fv name \<noteq> None then (Inl (AttributeError (AlreadySet name)), h)
                  else (Inr (), h(self := Cont (c\<lparr>c_field_values := Some (fv(name \<mapsto> val))\<rparr>))))
         | _ \<Rightarrow> (Inl (AttributeError (NoAttribute ''fields'')), h)))"

definition AbstractContainer_setter :: "(string \<times> pyval) list \<Rightarrow> error + setter option" where
  "AbstractContainer_setter field =
     (case map_of field ''name'' of
        None \<Rightarrow> Inl (KeyError ''name'')
      | Some name \<Rightarrow>
          if \<not> truthy (dict_get field ''settable'' (PBool True)) then Inr None
          else Inr (Some (setter name)))"

text \<open>The getter that \<^verbatim>\<open>_getter\<close> returns: \<^verbatim>\<open>self.fields.get(name)\<close>.\<close>

definition getter :: "pyval \<Rightarrow> heap \<Rightarrow> addr \<Rightarrow> error + pyval" where
  "getter name h self =
     (case h self of
        Cont c \<Rightarrow>
          (case c_field_values c of
             None \<Rightarrow> Inl (AttributeError (NoAttribute ''_AbstractContainer__field_values''))
           | Some fv \<Rightarrow> (case fv name of None \<Rightarrow> Inr PNone | Some v \<Rightarrow> Inr v))
      | _ \<Rightarrow> Inl (AttributeError (NoAttribute ''fields'')))"









section \<open>Gathering the fields of a class\<close>






section \<open>Vocabulary of the specification\<close>

text \<open>
  \<open>container_chain h a ps\<close>: \<open>ps\<close> are the ancestors of \<open>a\<close> that
  \<^verbatim>\<open>set_modified\<close> reaches, nearest first; the test in its body is
  \<^verbatim>\<open>isinstance(self.parent, Container)\<close>. Each is the parent of the one before and an
  instance of \<^verbatim>\<open>Container\<close>; the parent of the last one (of \<open>a\<close> itself when
  \<open>ps\<close> is empty) is \<^verbatim>\<open>None\<close> or no \<^verbatim>\<open>Container\<close>: a proxy, or an
  \<^verbatim>\<open>AbstractContainer\<close> of another class, such as a \<^verbatim>\<open>Data\<close>.
\<close>

fun container_chain :: "heap \<Rightarrow> addr \<Rightarrow> addr list \<Rightarrow> bool" where
  "container_chain h a [] =
     (case h a of Cont c \<Rightarrow> \<not> isinstance_Container h (c_parent c) | _ \<Rightarrow> False)"
| "container_chain h a (p # ps) =
     (case h a of
        Cont c \<Rightarrow> c_parent c = Some p \<and> isinstance_Container h (Some p) \<and> container_chain h p ps
      | _ \<Rightarrow> False)"

text \<open>
  \<open>mark_modified h S\<close>: the store \<open>h\<close> with the flag \<^verbatim>\<open>modified\<close> set on the
  containers at the addresses in \<open>S\<close>, and nothing else changed.
\<close>

definition mark_modified :: "heap \<Rightarrow> addr set \<Rightarrow> heap" where
  "mark_modified h S =
     (\<lambda>b. if b \<in> S then (case h b of Cont c \<Rightarrow> Cont (c\<lparr>c_modified := True\<rparr>) | ob \<Rightarrow> ob)
          else h b)"












section \<open>Example stores\<close>

text \<open>
  A container named \<open>name\<close>, and a store with the chain root (address 0), mid (1),
  leaf (2), none of them modified; address 3 holds no object of interest.
\<close>

definition example_container ::
  "string \<Rightarrow> string \<Rightarrow> addr option \<Rightarrow> addr list \<Rightarrow> bool \<Rightarrow> container" where
  "example_container name tag par chs m =
     \<lparr>c_is_Container = True, c_type_tag = Some tag, c_container_source = None,
      c_parent = par, c_children = chs, c_modified = m, c_object_id = Some name,
      c_name = Some name, c_field_values = Some Map.empty\<rparr>"

definition chain_store :: heap where
  "chain_store =
     (\<lambda>a. Other)
       (0 := Cont (example_container ''root'' ''Root'' None [1] False),
        1 := Cont (example_container ''mid'' ''Mid'' (Some 0) [2] False),
        2 := Cont (example_container ''leaf'' ''Leaf'' (Some 1) [] False))"


definition matches_2 :: matcher where
  "matches_2 h p cand = (cand = 2)"

text \<open>
  A store where the \<^verbatim>\<open>Data\<close> object at 0 and the container at 1 have no parent, and
  the chain store with a mid whose class defines no type tag.
\<close>

definition example_data :: container where
  "example_data =
     \<lparr>c_is_Container = False, c_type_tag = None, c_container_source = None,
      c_parent = None, c_children = [], c_modified = False, c_object_id = Some ''d'',
      c_name = Some ''d'', c_field_values = Some Map.empty\<rparr>"

definition data_store :: heap where
  "data_store =
     (\<lambda>a. Other)
       (0 := Cont example_data,
        1 := Cont (example_container ''leaf'' ''Leaf'' None [] False))"


section \<open>Lemmas about the store\<close>

lemma isinstance_Container_upd:
  "h a = Cont c \<Longrightarrow> c_is_Container c' = c_is_Container c \<Longrightarrow>
   isinstance_Container (h(a := Cont c')) r = isinstance_Container h r"
  by (cases r) (auto simp: isinstance_Container_def split: pyobj.splits)

lemma upd_lambda [simp]: "(\<lambda>b. if b = a then x else h b) = h(a := x)"
  by (rule ext) simp

lemma container_chain_upd:
  "h a = Cont c \<Longrightarrow> c_is_Container c' = c_is_Container c \<Longrightarrow> c_parent c' = c_parent c \<Longrightarrow>
   container_chain (h(a := Cont c')) p ps = container_chain h p ps"
proof (induction ps arbitrary: p)
  case Nil
  have "isinstance_Container (h(a := Cont c')) r = isinstance_Container h r" for r
    using Nil(1,2) by (rule isinstance_Container_upd)
  then show ?case using Nil
    by (cases "p = a"; cases "h p") (simp_all add: upd_lambda)
next
  case (Cons q ps)
  have "isinstance_Container (h(a := Cont c')) r = isinstance_Container h r" for r
    using Cons.prems(1,2) by (rule isinstance_Container_upd)
  then show ?case using Cons
    by (cases "p = a"; cases "h p") (simp_all add: upd_lambda)
qed

lemma mark_modified_step:
  "h a = Cont c \<Longrightarrow>
   mark_modified (h(a := Cont (c\<lparr>c_modified := True\<rparr>))) S = mark_modified h (insert a S)"
  by (rule ext) (auto simp: mark_modified_def)


section \<open>The dirty flag\<close>

lemma set_modified_chain:
  "container_chain h a ps \<Longrightarrow> length ps < fuel \<Longrightarrow>
   set_modified fuel h a True = (Inr (), mark_modified h (set (a # ps)))"
proof (induction ps arbitrary: h a fuel)
  case Nil
  then obtain n where n: "fuel = Suc n" by (cases fuel) auto
  from Nil obtain c where c: "h a = Cont c" by (auto split: pyobj.splits)
  with Nil have np: "\<not> isinstance_Container h (c_parent c)" by simp
  have "mark_modified h {a} = h(a := Cont (c\<lparr>c_modified := True\<rparr>))"
    using c by (auto simp: mark_modified_def)
  then show ?case using c np n
    by (auto simp: Let_def isinstance_Container_upd split: option.splits)
next
  case (Cons p ps)
  then obtain n where n: "fuel = Suc n" by (cases fuel) auto
  from Cons.prems obtain c where c: "h a = Cont c" by (auto split: pyobj.splits)
  with Cons.prems have p: "c_parent c = Some p" "isinstance_Container h (Some p)"
    "container_chain h p ps" by auto
  let ?h1 = "h(a := Cont (c\<lparr>c_modified := True\<rparr>))"
  have "container_chain ?h1 p ps" using p c by (simp add: container_chain_upd)
  moreover have "length ps < n" using Cons.prems n by simp
  ultimately have "set_modified n ?h1 p True = (Inr (), mark_modified ?h1 (set (p # ps)))"
    by (rule Cons.IH)
  then show ?case using c p n
    by (simp add: Let_def isinstance_Container_upd mark_modified_step)
qed


lemma set_modified_False:
  "h a = Cont c \<Longrightarrow>
   set_modified (Suc n) h a False = (Inr (), h(a := Cont (c\<lparr>c_modified := False\<rparr>)))"
  by (cases "c_parent c") (simp_all add: Let_def)


lemma modified_upd:
  "modified (h(a := Cont c)) b = (if b = a then Inr (c_modified c) else modified h b)"
  by (simp add: modified_def)

lemma set_modified_keeps_flag:
  "modified h b = Inr True \<Longrightarrow> modified (snd (set_modified fuel h a True)) b = Inr True"
proof (induction fuel arbitrary: h a)
  case 0
  then show ?case by simp
next
  case (Suc fuel)
  show ?case
  proof (cases "h a")
    case (Cont c)
    let ?h1 = "h(a := Cont (c\<lparr>c_modified := True\<rparr>))"
    have h1: "modified ?h1 b = Inr True" using Suc.prems by (simp add: modified_upd)
    show ?thesis
    proof (cases "c_parent c")
      case None
      then show ?thesis using Cont h1 by (simp add: Let_def)
    next
      case (Some p)
      show ?thesis
      proof (cases "isinstance_Container ?h1 (Some p)")
        case True
        then show ?thesis using Cont Some Suc.IH[OF h1] by (simp add: Let_def)
      next
        case False
        then show ?thesis using Cont Some h1 by (simp add: Let_def)
      qed
    qed
  next
    case (Prox x)
    then show ?thesis using Suc.prems by simp
  next
    case Other
    then show ?thesis using Suc.prems by simp
  qed
qed

lemma attach_keeps_flag:
  "modified h b = Inr True \<Longrightarrow> modified (snd (attach fuel h x p)) b = Inr True"
proof (cases "h p")
  case (Cont pc)
  assume m: "modified h b = Inr True"
  have "modified (h(p := Cont (pc\<lparr>c_children := c_children pc @ [x]\<rparr>))) b = Inr True"
    using m Cont by (auto simp: modified_def)
  then show ?thesis using Cont by (simp add: attach_def set_modified_keeps_flag)
qed (simp_all add: attach_def)

lemma add_candidate_keeps_flag:
  "modified h b = Inr True \<Longrightarrow> modified (snd (add_candidate h p cand)) b = Inr True"
  by (cases "h p") (auto simp: add_candidate_def modified_def)

lemma parent_setter_keeps_flag:
  assumes m: "modified h b = Inr True"
  shows "modified (snd (parent_setter M fuel h x pc)) b = Inr True"
proof (cases "h x")
  case (Cont c)
  have upd: "modified (h(x := Cont (c\<lparr>c_parent := q\<rparr>))) b = Inr True" for q
    using m Cont by (auto simp: modified_def)
  show ?thesis
  proof (cases "c_parent c = pc")
    case True
    then show ?thesis using Cont m by (simp add: parent_setter_def)
  next
    case False
    show ?thesis
    proof (cases "c_parent c")
      case None
      then show ?thesis using Cont False upd m
        by (cases pc) (simp_all add: parent_setter_def Let_def attach_keeps_flag)
    next
      case (Some cur)
      show ?thesis
      proof (cases "isinstance_AbstractContainer h (Some cur)")
        case True
        then show ?thesis using Cont False Some m by (simp add: parent_setter_def)
      next
        case nac: False
        show ?thesis
        proof (cases pc)
          case None
          then show ?thesis using Cont False Some nac m by (simp add: parent_setter_def)
        next
          case (Some p)
          then show ?thesis using Cont False \<open>c_parent c = Some cur\<close> nac m upd
            by (cases "h cur")
               (simp_all add: parent_setter_def attach_keeps_flag add_candidate_keeps_flag)
        qed
      qed
    qed
  qed
qed (simp_all add: parent_setter_def m)

lemma new_modified:
  "modified (snd (AbstractContainer_new M fuel h inst cls uuid kwargs)) inst = Inr True"
proof -
  let ?h1 = "h(inst := Cont
                \<lparr>c_is_Container = cls_is_Container cls,
                 c_type_tag = cls_type_tag cls,
                 c_container_source = kwargs_pop (kw_container_source kwargs) None,
                 c_parent = None,
                 c_children = [],
                 c_modified = True,
                 c_object_id = kwargs_pop (kw_object_id kwargs) (Some uuid),
                 c_name = None,
                 c_field_values = None\<rparr>)"
  have "modified ?h1 inst = Inr True" by (simp add: modified_def)
  then have *: "modified (snd (parent_setter M fuel ?h1 inst (kwargs_pop (kw_parent kwargs) None))) inst
             = Inr True"
    by (rule parent_setter_keeps_flag)
  obtain r h2 where r: "parent_setter M fuel ?h1 inst (kwargs_pop (kw_parent kwargs) None) = (r, h2)"
    by (cases "parent_setter M fuel ?h1 inst (kwargs_pop (kw_parent kwargs) None)")
  with * have "modified h2 inst = Inr True" by simp
  then show ?thesis using r
    by (cases r) (simp_all add: AbstractContainer_new_def)
qed

lemma init_modified:
  "modified h b = Inr True \<Longrightarrow> modified (snd (AbstractContainer_init h a name)) b = Inr True"
  by (cases "h a") (auto simp: AbstractContainer_init_def modified_def)

lemma new_returns_inst:
  "AbstractContainer_new M fuel h inst cls uuid kwargs = (Inr a, h1) \<Longrightarrow> a = inst"
  by (auto simp: AbstractContainer_new_def Let_def split: prod.splits sum.splits)

lemma construct_modified:
  "modified (snd (construct M fuel h inst cls uuid kwargs name)) inst = Inr True"
proof -
  obtain r h1 where r: "AbstractContainer_new M fuel h inst cls uuid kwargs = (r, h1)"
    by (cases "AbstractContainer_new M fuel h inst cls uuid kwargs")
  with new_modified[of M fuel h inst cls uuid kwargs]
  have m1: "modified h1 inst = Inr True" by simp
  show ?thesis
  proof (cases r)
    case (Inl e)
    then show ?thesis using r m1 by (simp add: construct_def)
  next
    case (Inr a)
    with r have a: "a = inst" by (auto dest: new_returns_inst)
    obtain r2 h2 where r2: "AbstractContainer_init h1 inst name = (r2, h2)"
      by (cases "AbstractContainer_init h1 inst name")
    with init_modified[OF m1, of inst name] have "modified h2 inst = Inr True" by simp
    then show ?thesis using r Inr a r2 by (cases r2) (simp_all add: construct_def)
  qed
qed

lemma construct_returns_inst:
  "construct M fuel h inst cls uuid kwargs name = (Inr a, h1) \<Longrightarrow> a = inst"
  by (auto simp: construct_def split: prod.splits sum.splits dest: new_returns_inst)

section \<open>Theorems about Data\<close>

text \<open>
  C1 (as the code has it). A buffer whose representation is none of list, numpy array and
  h5py dataset refuses \<^verbatim>\<open>append\<close> and \<^verbatim>\<open>extend\<close> with a \<^verbatim>\<open>ValueError\<close> that
  names the type of the representation, and the buffer stays as it was. A numpy array is not
  refused: \<^verbatim>\<open>append(x)\<close> passes the array and the list \<^verbatim>\<open>[x]\<close> to
  \<^verbatim>\<open>np.append\<close>, and \<^verbatim>\<open>extend(xs)\<close> the array and \<^verbatim>\<open>[xs]\<close>; when numpy returns
  an array the call succeeds and that array is the buffer from then on, and when numpy
  raises, its exception is the outcome and the buffer stays as it was.
\<close>

theorem Data_append_extend_by_representation:
  "Data_append L (OtherData tname xs) x
     = (Inl (ValueError (CannotAppendTo tname)), OtherData tname xs)
   \<and> Data_extend L (OtherData tname xs) ys
     = (Inl (ValueError (CannotExtend tname)), OtherData tname xs)
   \<and> (np_append L arr (Seq [Item x]) = Inr arr' \<longrightarrow>
        Data_append L (NdArray arr) x = (Inr (), NdArray arr'))
   \<and> (np_append L arr (Seq [Seq (map Item ys)]) = Inr arr' \<longrightarrow>
        Data_extend L (NdArray arr) ys = (Inr (), NdArray arr'))
   \<and> (np_append L arr (Seq [Item x]) = Inl e \<longrightarrow>
        Data_append L (NdArray arr) x = (Inl e, NdArray arr))
   \<and> (np_append L arr (Seq [Seq (map Item ys)]) = Inl e \<longrightarrow>
        Data_extend L (NdArray arr) ys = (Inl e, NdArray arr))"
  by (simp add: Data_append_def Data_extend_def)

text \<open>
  With the example libraries: a tuple refuses both calls, and the array \<open>[1, 2, 3]\<close>
  takes 4 and then 5 and 6. With no memory left both calls raise what numpy raises, and the
  array stays.
\<close>

theorem Data_append_extend_by_representation_witness:
  "Data_append example_libraries (OtherData ''tuple'' [1, 2, 3]) 4
     = (Inl (ValueError (CannotAppendTo ''tuple'')), OtherData ''tuple'' [1, 2, 3])
   \<and> Data_extend example_libraries (OtherData ''tuple'' [1, 2, 3]) [5, 6]
     = (Inl (ValueError (CannotExtend ''tuple'')), OtherData ''tuple'' [1, 2, 3])
   \<and> Data_append example_libraries (NdArray [1, 2, 3]) 4 = (Inr (), NdArray [1, 2, 3, 4])
   \<and> Data_extend example_libraries (NdArray [1, 2, 3, 4]) [5, 6]
     = (Inr (), NdArray [1, 2, 3, 4, 5, 6])
   \<and> Data_append exhausted_libraries (NdArray [1, 2, 3]) 4
     = (Inl (ExternalError ''MemoryError''), NdArray [1, 2, 3])
   \<and> Data_extend exhausted_libraries (NdArray [1, 2, 3]) [5, 6]
     = (Inl (ExternalError ''MemoryError''), NdArray [1, 2, 3])"
proof -
  have a: "np_append example_libraries [1, 2, 3] (Seq [Item 4]) = Inr [1, 2, 3, 4]"
    by (simp add: example_libraries_def fits_int64_def)
  have b: "np_append example_libraries [1, 2, 3, 4] (Seq [Seq (map Item [5, 6])])
           = Inr [1, 2, 3, 4, 5, 6]"
    by (simp add: example_libraries_def fits_int64_def)
  from a b
    Data_append_extend_by_representation[where L = example_libraries and tname = "''tuple''"
      and xs = "[1, 2, 3]" and x = 4 and ys = "[5, 6]" and arr = "[1, 2, 3]"
      and arr' = "[1, 2, 3, 4]"]
    Data_append_extend_by_representation[where L = example_libraries
      and ys = "[5, 6]" and arr = "[1, 2, 3, 4]" and arr' = "[1, 2, 3, 4, 5, 6]"]
    Data_append_extend_by_representation[where L = exhausted_libraries
      and x = 4 and ys = "[5, 6]" and arr = "[1, 2, 3]" and e = "ExternalError ''MemoryError''"]
  show ?thesis by (simp add: exhausted_libraries_def)
qed

text \<open>
  C1 (as the spec has it) fails on a fixed-shape array: appending 4 to the numpy array
  \<open>[1, 2, 3]\<close> of 64-bit integers raises nothing and changes the buffer.
\<close>

theorem Data_append_ndarray_counterexample:
  "Data_append example_libraries (NdArray [1, 2, 3]) 4 = (Inr (), NdArray [1, 2, 3, 4])
   \<and> \<not> isl (fst (Data_append example_libraries (NdArray [1, 2, 3]) 4))
   \<and> snd (Data_append example_libraries (NdArray [1, 2, 3]) 4) \<noteq> NdArray [1, 2, 3]"
  by (simp add: Data_append_def example_libraries_def fits_int64_def)

section \<open>Theorems about the tree\<close>

text \<open>
  C5 (as the code has it). Setting the flag to true on \<open>a\<close> sets it on \<open>a\<close> and on
  every ancestor the parent links reach through instances of \<^verbatim>\<open>Container\<close>, and changes
  nothing else, provided the interpreter allows as many nested calls as the chain is long.
  The chain ends at the root, or at the first object whose parent is no \<^verbatim>\<open>Container\<close>.
  Setting the flag to false changes the flag of \<open>a\<close> alone.
\<close>

theorem set_modified_propagates:
  "(container_chain h a ps \<and> length ps < fuel \<longrightarrow>
      set_modified fuel h a True = (Inr (), mark_modified h (set (a # ps))))
   \<and> (h a = Cont c \<longrightarrow>
      set_modified (Suc fuel) h a False = (Inr (), h(a := Cont (c\<lparr>c_modified := False\<rparr>))))"
  using set_modified_chain[of h a ps fuel] set_modified_False[of h a c fuel] by blast

text \<open>
  The chain root, mid, leaf of C5: after \<^verbatim>\<open>leaf.set_modified(True)\<close> all three flags are
  true; after \<^verbatim>\<open>leaf.set_modified(False)\<close> the flags of mid and root still are.
\<close>

theorem set_modified_propagates_witness:
  "container_chain chain_store 2 [1, 0]
   \<and> set_modified 3 chain_store 2 True = (Inr (), mark_modified chain_store {2, 1, 0})
   \<and> modified (mark_modified chain_store {2, 1, 0}) 2 = Inr True
   \<and> modified (mark_modified chain_store {2, 1, 0}) 1 = Inr True
   \<and> modified (mark_modified chain_store {2, 1, 0}) 0 = Inr True
   \<and> modified (snd (set_modified 3 (mark_modified chain_store {2, 1, 0}) 2 False)) 2 = Inr False
   \<and> modified (snd (set_modified 3 (mark_modified chain_store {2, 1, 0}) 2 False)) 1 = Inr True
   \<and> modified (snd (set_modified 3 (mark_modified chain_store {2, 1, 0}) 2 False)) 0 = Inr True"
proof -
  have ch: "container_chain chain_store 2 [1, 0]"
    by (simp add: chain_store_def example_container_def isinstance_Container_def)
  have leaf: "mark_modified chain_store {2, 1, 0} 2
              = Cont (example_container ''leaf'' ''Leaf'' (Some 1) [] True)"
    by (simp add: mark_modified_def chain_store_def example_container_def)
  from ch set_modified_propagates[of chain_store 2 "[1, 0]" 3]
  have t: "set_modified 3 chain_store 2 True = (Inr (), mark_modified chain_store {2, 1, 0})"
    by (simp add: insert_commute)
  from leaf set_modified_propagates[where h = "mark_modified chain_store {2, 1, 0}" and a = 2
      and fuel = 2 and c = "example_container ''leaf'' ''Leaf'' (Some 1) [] True"]
  have f: "set_modified 3 (mark_modified chain_store {2, 1, 0}) 2 False
           = (Inr (), (mark_modified chain_store {2, 1, 0})
                (2 := Cont ((example_container ''leaf'' ''Leaf'' (Some 1) [] True)
                             \<lparr>c_modified := False\<rparr>)))"
    by (simp add: numeral_3_eq_3 del: set_modified.simps)
  show ?thesis
    unfolding f unfolding t
    using ch
    by (simp add: modified_def mark_modified_def chain_store_def example_container_def)
qed

text \<open>
  C5 (as the spec has it) fails when the parent is an \<^verbatim>\<open>AbstractContainer\<close> outside
  \<^verbatim>\<open>Container\<close>. In the data store the parent setter accepts the \<^verbatim>\<open>Data\<close> object
  at 0 as the parent of the container at 1; setting the flag of 1 to true then leaves the
  flag of 0 false.
\<close>

theorem set_modified_data_parent_counterexample:
  "parent_setter matches_2 3 data_store 1 (Some 0)
     = (Inr (), data_store(1 := Cont (example_container ''leaf'' ''Leaf'' (Some 0) [] False)))
   \<and> isinstance_AbstractContainer
        (data_store(1 := Cont (example_container ''leaf'' ''Leaf'' (Some 0) [] False))) (Some 0)
   \<and> fst (set_modified 3
        (data_store(1 := Cont (example_container ''leaf'' ''Leaf'' (Some 0) [] False))) 1 True)
       = Inr ()
   \<and> modified (snd (set_modified 3
        (data_store(1 := Cont (example_container ''leaf'' ''Leaf'' (Some 0) [] False))) 1 True)) 1
       = Inr True
   \<and> modified (snd (set_modified 3
        (data_store(1 := Cont (example_container ''leaf'' ''Leaf'' (Some 0) [] False))) 1 True)) 0
       = Inr False"
  by (simp add: parent_setter_def isinstance_Container_def isinstance_AbstractContainer_def
      data_store_def example_data_def example_container_def modified_def numeral_3_eq_3 Let_def)











text \<open>
  C9. Whatever the arguments, and whether or not the constructor raises, the object that
  \<^verbatim>\<open>__new__\<close> has allocated has its flag \<^verbatim>\<open>modified\<close> set. When the constructor
  returns, it returns that object, the flag is set, and only \<^verbatim>\<open>set_modified(False)\<close>
  afterwards clears it.
\<close>

theorem constructed_modified:
  "modified (snd (construct M fuel h inst cls uuid kwargs name)) inst = Inr True
   \<and> (\<forall>h1 a. construct M fuel h inst cls uuid kwargs name = (Inr a, h1) \<longrightarrow>
        a = inst \<and> modified h1 a = Inr True
        \<and> modified (snd (set_modified (Suc n) h1 a False)) a = Inr False)"
proof (intro conjI allI impI)
  show "modified (snd (construct M fuel h inst cls uuid kwargs name)) inst = Inr True"
    by (rule construct_modified)
next
  fix h1 a
  assume c: "construct M fuel h inst cls uuid kwargs name = (Inr a, h1)"
  then show a: "a = inst" by (rule construct_returns_inst)
  from construct_modified[of M fuel h inst cls uuid kwargs name] c a
  show m: "modified h1 a = Inr True" by simp
  then obtain ca where "h1 a = Cont ca" by (cases "h1 a") (simp_all add: modified_def)
  then have "set_modified (Suc n) h1 a False = (Inr (), h1(a := Cont (ca\<lparr>c_modified := False\<rparr>)))"
    by (rule set_modified_False)
  then show "modified (snd (set_modified (Suc n) h1 a False)) a = Inr False"
    by (simp add: modified_def del: set_modified.simps)
qed

text \<open>
  A container constructed in the chain store at address 3, with the leaf for its parent.
\<close>

theorem constructed_modified_witness:
  "construct matches_2 3 chain_store 3 \<lparr>cls_is_Container = True, cls_type_tag = None\<rparr> ''id''
       \<lparr>kw_container_source = None, kw_object_id = None, kw_parent = Some (Some 2)\<rparr> ''new''
     = (Inr 3, snd (construct matches_2 3 chain_store 3
                      \<lparr>cls_is_Container = True, cls_type_tag = None\<rparr> ''id''
                      \<lparr>kw_container_source = None, kw_object_id = None, kw_parent = Some (Some 2)\<rparr>
                      ''new''))
   \<and> modified (snd (construct matches_2 3 chain_store 3
                      \<lparr>cls_is_Container = True, cls_type_tag = None\<rparr> ''id''
                      \<lparr>kw_container_source = None, kw_object_id = None, kw_parent = Some (Some 2)\<rparr>
                      ''new'')) 3 = Inr True
   \<and> modified (snd (set_modified (Suc 0) (snd (construct matches_2 3 chain_store 3
                      \<lparr>cls_is_Container = True, cls_type_tag = None\<rparr> ''id''
                      \<lparr>kw_container_source = None, kw_object_id = None, kw_parent = Some (Some 2)\<rparr>
                      ''new'')) 3 False)) 3 = Inr False"
proof -
  let ?r = "construct matches_2 3 chain_store 3 \<lparr>cls_is_Container = True, cls_type_tag = None\<rparr>
              ''id'' \<lparr>kw_container_source = None, kw_object_id = None, kw_parent = Some (Some 2)\<rparr>
              ''new''"
  have "fst ?r = Inr 3"
    by (simp add: construct_def AbstractContainer_new_def AbstractContainer_init_def
          parent_setter_def attach_def isinstance_Container_def kwargs_pop_def chain_store_def
          example_container_def numeral_3_eq_3 Let_def)
  then have r: "?r = (Inr 3, snd ?r)" by (metis prod.collapse)
  from constructed_modified[of matches_2 3 chain_store 3 _ "''id''" _ "''new''" 0] r
  show ?thesis by blast
qed

section \<open>The children of a container\<close>

lemma children_upd:
  "children (h(a := Cont c)) b =
     (if b = a then Inr (PTuple (map PRef (c_children c))) else children h b)"
  by (simp add: children_def)

lemma children_same:
  "h a = Cont c \<Longrightarrow> c_children c' = c_children c \<Longrightarrow> children (h(a := Cont c')) b = children h b"
  by (simp add: children_def)

lemma set_modified_children:
  "children (snd (set_modified fuel h a m)) b = children h b"
proof (induction fuel arbitrary: h a m)
  case 0
  then show ?case by simp
next
  case (Suc fuel)
  show ?case
  proof (cases "h a")
    case (Cont c)
    let ?h1 = "h(a := Cont (c\<lparr>c_modified := m\<rparr>))"
    have h1: "children ?h1 b = children h b" using Cont by (simp add: children_same)
    show ?thesis
    proof (cases "c_parent c")
      case None
      then show ?thesis using Cont h1 by (simp add: Let_def)
    next
      case (Some p)
      show ?thesis
      proof (cases "m \<and> isinstance_Container ?h1 (Some p)")
        case True
        then show ?thesis using Cont Some Suc.IH[of ?h1 p True] h1 by (simp add: Let_def)
      next
        case False
        then show ?thesis using Cont Some h1 by (auto simp add: Let_def)
      qed
    qed
  qed simp_all
qed

lemma attach_children:
  assumes "children h b = Inr (PTuple t)"
  shows "children (snd (attach fuel h x p)) b = Inr (PTuple (if b = p then t @ [PRef x] else t))"
proof (cases "h p")
  case (Cont pc)
  have "children (h(p := Cont (pc\<lparr>c_children := c_children pc @ [x]\<rparr>))) b
        = Inr (PTuple (if b = p then t @ [PRef x] else t))"
    using assms Cont by (auto simp: children_def)
  then show ?thesis using Cont by (simp add: attach_def set_modified_children)
next
  case (Prox px)
  then show ?thesis using assms by (auto simp: attach_def children_def)
next
  case Other
  then show ?thesis using assms by (auto simp: attach_def children_def)
qed

lemma add_candidate_children:
  "children (snd (add_candidate h p cand)) b = children h b"
  by (cases "h p") (auto simp: add_candidate_def children_def)

lemma parent_setter_children:
  assumes t: "children h b = Inr (PTuple t)"
  shows "children (snd (parent_setter M fuel h x pc)) b = Inr (PTuple t)
         \<or> (pc = Some b \<and> children (snd (parent_setter M fuel h x pc)) b
                              = Inr (PTuple (t @ [PRef x])))"
proof (cases "h x")
  case (Cont c)
  have upd: "children (h(x := Cont (c\<lparr>c_parent := q\<rparr>))) b = Inr (PTuple t)" for q
    using t Cont by (simp add: children_same)
  show ?thesis
  proof (cases "c_parent c = pc")
    case True
    then show ?thesis using Cont t by (simp add: parent_setter_def)
  next
    case False
    show ?thesis
    proof (cases "c_parent c")
      case None
      show ?thesis
      proof (cases pc)
        case pcNone: None
        then show ?thesis using Cont False None by simp
      next
        case (Some p)
        then show ?thesis using Cont False None upd[of "Some p"]
          by (auto simp: parent_setter_def Let_def attach_children[OF upd])
      qed
    next
      case (Some cur)
      show ?thesis
      proof (cases "isinstance_AbstractContainer h (Some cur)")
        case True
        then show ?thesis using Cont False Some t by (simp add: parent_setter_def)
      next
        case nac: False
        show ?thesis
        proof (cases pc)
          case None
          then show ?thesis using Cont False Some nac t by (simp add: parent_setter_def)
        next
          case (Some p)
          then show ?thesis using Cont False \<open>c_parent c = Some cur\<close> nac t
            by (cases "h cur")
               (auto simp: parent_setter_def attach_children[OF upd] add_candidate_children)
        qed
      qed
    qed
  qed
qed (simp_all add: parent_setter_def t)

lemma setter_children: "children (snd (setter name fuel h a v)) b = children h b"
proof (cases "h a")
  case (Cont c)
  then show ?thesis
    by (cases "c_field_values c") (auto simp: setter_def children_def)
qed (simp_all add: setter_def)

text \<open>
  Of the operations that write to the store, the parent setter alone changes the children
  of an object, and only those of the newly assigned parent, by appending the child;
  \<^verbatim>\<open>set_modified\<close>, a field setter and \<^verbatim>\<open>add_candidate\<close> leave the children
  of every object as they were.
\<close>

lemma children_frame:
  assumes "children h b = Inr (PTuple t)"
  shows "(children (snd (parent_setter M fuel h x pc)) b = Inr (PTuple t)
          \<or> (pc = Some b \<and> children (snd (parent_setter M fuel h x pc)) b
                               = Inr (PTuple (t @ [PRef x]))))
       \<and> children (snd (set_modified fuel h a m)) b = Inr (PTuple t)
       \<and> children (snd (setter name fuel h a v)) b = Inr (PTuple t)
       \<and> children (snd (add_candidate h p cand)) b = Inr (PTuple t)"
  using assms parent_setter_children[OF assms, of M fuel x pc]
  by (simp only: set_modified_children setter_children add_candidate_children simp_thms)

section \<open>Theorems about the generated accessors\<close>

text \<open>
  C4. For a settable field \<open>name\<close>, the generated setter does nothing when given
  \<^verbatim>\<open>None\<close>, whether or not the field is set; given another value it stores the value
  when \<open>name\<close> is not yet in the field values and raises the \<^verbatim>\<open>AttributeError\<close>
  "already set" when it is, leaving the store as it was.
\<close>

theorem setter_write_once:
  "setter name fuel h x PNone = (Inr (), h)
   \<and> (h x = Cont c \<and> c_field_values c = Some fv \<and> v \<noteq> PNone \<longrightarrow>
        setter name fuel h x v =
          (if fv name = None
           then (Inr (), h(x := Cont (c\<lparr>c_field_values := Some (fv(name \<mapsto> v))\<rparr>)))
           else (Inl (AttributeError (AlreadySet name)), h)))
   \<and> (map_of field ''name'' = Some name \<and> truthy (dict_get field ''settable'' (PBool True)) \<longrightarrow>
        AbstractContainer_setter field = Inr (Some (setter name)))"
  by (auto simp: setter_def AbstractContainer_setter_def)


text \<open>
  The field \<open>f\<close> of the root of the chain store: \<^verbatim>\<open>None\<close> first, then 1, then 2,
  then \<^verbatim>\<open>None\<close> again.
\<close>

theorem setter_write_once_witness:
  "setter (PStr ''f'') 0 chain_store 0 PNone = (Inr (), chain_store)
   \<and> getter (PStr ''f'') chain_store 0 = Inr PNone
   \<and> fst (setter (PStr ''f'') 0 chain_store 0 (PInt 1)) = Inr ()
   \<and> getter (PStr ''f'') (snd (setter (PStr ''f'') 0 chain_store 0 (PInt 1))) 0 = Inr (PInt 1)
   \<and> setter (PStr ''f'') 0 (snd (setter (PStr ''f'') 0 chain_store 0 (PInt 1))) 0 (PInt 2)
       = (Inl (AttributeError (AlreadySet (PStr ''f''))),
          snd (setter (PStr ''f'') 0 chain_store 0 (PInt 1)))
   \<and> setter (PStr ''f'') 0 (snd (setter (PStr ''f'') 0 chain_store 0 (PInt 1))) 0 PNone
       = (Inr (), snd (setter (PStr ''f'') 0 chain_store 0 (PInt 1)))
   \<and> AbstractContainer_setter [(''name'', PStr ''f'')] = Inr (Some (setter (PStr ''f'')))"
proof -
  let ?c = "example_container ''root'' ''Root'' None [1] False"
  let ?c1 = "?c\<lparr>c_field_values := Some [PStr ''f'' \<mapsto> PInt 1]\<rparr>"
  let ?h1 = "chain_store(0 := Cont ?c1)"
  have r: "chain_store 0 = Cont ?c \<and> c_field_values ?c = Some Map.empty \<and> PInt 1 \<noteq> PNone"
    by (simp add: chain_store_def example_container_def)
  have s1: "setter (PStr ''f'') 0 chain_store 0 (PInt 1) = (Inr (), ?h1)"
    using setter_write_once[where h = chain_store and x = 0 and c = ?c and fv = Map.empty
        and v = "PInt 1" and name = "PStr ''f''" and fuel = 0] r
    by simp
  have r1: "?h1 0 = Cont ?c1 \<and> c_field_values ?c1 = Some [PStr ''f'' \<mapsto> PInt 1]
            \<and> PInt 2 \<noteq> PNone"
    by simp
  have s2: "setter (PStr ''f'') 0 ?h1 0 (PInt 2)
            = (Inl (AttributeError (AlreadySet (PStr ''f''))), ?h1)"
    using setter_write_once[where h = ?h1 and x = 0 and c = ?c1
        and fv = "[PStr ''f'' \<mapsto> PInt 1]" and v = "PInt 2" and name = "PStr ''f''"
        and fuel = 0] r1
    by simp
  have s3: "setter (PStr ''f'') 0 h 0 PNone = (Inr (), h)" for h
    using setter_write_once[where h = h and name = "PStr ''f''" and fuel = 0 and x = 0] by simp
  have s4: "AbstractContainer_setter [(''name'', PStr ''f'')] = Inr (Some (setter (PStr ''f'')))"
    using setter_write_once[where field = "[(''name'', PStr ''f'')]" and name = "PStr ''f''"]
    by (simp add: dict_get_def)
  show ?thesis
    unfolding s1 s3 s4 using s2
    by (simp add: getter_def chain_store_def example_container_def)
qed

section \<open>Child fields\<close>

lemma parent_Inr: "parent h b = Inr r \<longleftrightarrow> (\<exists>cb. h b = Cont cb \<and> c_parent cb = r)"
  by (cases "h b") (auto simp: parent_def)








lemma mark_modified_keeps_flag:
  "modified h c = Inr True \<Longrightarrow> modified (mark_modified h S) c = Inr True"
  by (cases "h c") (auto simp: mark_modified_def modified_def)




lemma isinstance_Container_None [simp]: "\<not> isinstance_Container h None"
  by (simp add: isinstance_Container_def)




















section \<open>Theorems about the fields of a class\<close>










end
